theory Spec2Isabelle
  imports Complex_Main "HOL-Library.Multiset"
begin

section \<open>Values\<close>

text \<open>
  A JavaScript \<open>Error\<close> is modelled by its message. The texts of the program's console
  and alert messages are Portuguese; they are written here without their accents.
\<close>

datatype exn = Error string

fun message :: "exn \<Rightarrow> string" where
  "message (Error m) = m"

text \<open>
  The template \<open>${error.message || error}\<close> of the alert in \<open>getLocation\<close>: the message
  when it is not empty, the error converted to a string otherwise.
\<close>

definition detail :: "exn \<Rightarrow> string" where
  "detail e = (if message e = [] then ''Error'' else message e)"

text \<open>
  The value held by the \<open>isSwitchOn\<close> state: a boolean, or any other JSON value that
  \<open>JSON.parse\<close> may return, of which the program only observes the truthiness.
\<close>

datatype json = JBool bool | JOther bool

fun truthy :: "json \<Rightarrow> bool" where
  "truthy (JBool b) = b"
| "truthy (JOther t) = t"

definition JSON_stringify :: "bool \<Rightarrow> string" where
  "JSON_stringify b = (if b then ''true'' else ''false'')"

text \<open>
  \<open>JSON.parse\<close> on the two texts that \<open>JSON.stringify\<close> produces from a boolean; on any
  other text its result (a value or a \<open>SyntaxError\<close>) is the parameter \<open>other\<close>.
\<close>

definition JSON_parse :: "(string \<Rightarrow> exn + json) \<Rightarrow> string \<Rightarrow> exn + json" where
  "JSON_parse other t =
     (if t = ''true'' then Inr (JBool True)
      else if t = ''false'' then Inr (JBool False)
      else other t)"

section \<open>The record store\<close>

text \<open>
  A row of \<open>locations (id INTEGER PRIMARY KEY AUTOINCREMENT, latitude REAL, longitude REAL)\<close>.
  The program copies coordinates and never computes with them: their type is a parameter.
  Row ids are natural numbers (the 64-bit limit of the engine is not modelled).
\<close>

record 'c row =
  row_id :: nat
  latitude :: 'c
  longitude :: 'c

text \<open>The three SQL statements the program sends, with their bound parameters.\<close>

datatype 'c sql =
    CreateTableIfNotExists string
  | InsertInto string 'c 'c
  | SelectAll string

text \<open>
  The database file: the rows of each table in the order of their insertion, and for each
  \<open>AUTOINCREMENT\<close> table the largest row id ever assigned (SQLite's \<open>sqlite_sequence\<close>).
\<close>

record 'c database =
  tables :: "string \<rightharpoonup> 'c row list"
  sequence :: "string \<Rightarrow> nat"

definition create_table_if_not_exists :: "string \<Rightarrow> 'c database \<Rightarrow> 'c database" where
  "create_table_if_not_exists t d =
     (case tables d t of
        None \<Rightarrow> d\<lparr>tables := (tables d)(t \<mapsto> [])\<rparr>
      | Some rows \<Rightarrow> d)"

definition next_rowid :: "string \<Rightarrow> 'c row list \<Rightarrow> 'c database \<Rightarrow> nat" where
  "next_rowid t rows d = Suc (fold max (map row_id rows) (sequence d t))"

text \<open>
  A \<open>REAL\<close> column does not hold every number bound to it as it is: SQLite stores NaN as
  \<open>NULL\<close>, which is read back as \<open>null\<close>. What a column holds for a bound value is the
  parameter \<open>col\<close>.
\<close>

definition insert_into ::
  "('c \<Rightarrow> 'c) \<Rightarrow> string \<Rightarrow> 'c \<Rightarrow> 'c \<Rightarrow> 'c database \<Rightarrow> exn + (nat \<times> 'c database)"
  where
  "insert_into col t lat lon d =
     (case tables d t of
        None \<Rightarrow> Inl (Error (''no such table: '' @ t))
      | Some rows \<Rightarrow>
          (let i = next_rowid t rows d;
               r = \<lparr>row_id = i, latitude = col lat, longitude = col lon\<rparr>
           in Inr (i, d\<lparr>tables := (tables d)(t \<mapsto> rows @ [r]),
                        sequence := (sequence d)(t := i)\<rparr>)))"

text \<open>
  \<open>SELECT * FROM t\<close> carries no \<open>ORDER BY\<close>: the rows come back in the order in which the
  engine scans the table, the parameter \<open>scan\<close>.
\<close>

definition select_all ::
  "('c row list \<Rightarrow> 'c row list) \<Rightarrow> string \<Rightarrow> 'c database \<Rightarrow> exn + 'c row list" where
  "select_all scan t d =
     (case tables d t of
        None \<Rightarrow> Inl (Error (''no such table: '' @ t))
      | Some rows \<Rightarrow> Inr (scan rows))"

text \<open>SQLite scans a rowid table by ascending rowid.\<close>

definition rowid_scan :: "'c row list \<Rightarrow> 'c row list" where
  "rowid_scan rows = sort_key row_id rows"

section \<open>The platform and the state of the application\<close>

record 'c platform =
  json_other :: "string \<Rightarrow> exn + json"
  scan :: "'c row list \<Rightarrow> 'c row list"
  real_column :: "'c \<Rightarrow> 'c"

datatype 'c arg =
    AStr string
  | ABool bool
  | AErr exn
  | AId "nat option"
  | ACoords 'c 'c
  | ARows "'c row list"

text \<open>What the program does to the outside and to its React state, in program order.\<close>

datatype 'c event =
    ConsoleLog string "'c arg list"
  | ConsoleError string "'c arg list"
  | Alert string string
  | TxBegin
  | TxCommit
  | TxRollback
  | Sql "'c sql"
  | SetIsSwitchOn json
  | SetIsLoading bool
  | SetLocations "'c row list"

text \<open>
  \<open>locations\<close> is \<open>None\<close> for the initial \<open>null\<close>. \<open>asyncStorage\<close> and \<open>database\<close> are
  durable; the three React states are reset when the application starts.
\<close>

record 'c world =
  database :: "'c database"
  asyncStorage :: "string \<rightharpoonup> string"
  isSwitchOn :: json
  isLoading :: bool
  locations :: "'c row list option"
  trace :: "'c event list"

definition restart :: "'c world \<Rightarrow> 'c world" where
  "restart s = s\<lparr>isSwitchOn := JBool False, isLoading := False, locations := None\<rparr>"

section \<open>Programs: state, exceptions, try/catch/finally\<close>

type_synonym ('s, 'a) prog = "'s \<Rightarrow> (exn + 'a) \<times> 's"

definition pure :: "'a \<Rightarrow> ('s, 'a) prog" where
  "pure x = (\<lambda>s. (Inr x, s))"

definition raise :: "exn \<Rightarrow> ('s, 'a) prog" where
  "raise e = (\<lambda>s. (Inl e, s))"

definition and_then :: "('s, 'a) prog \<Rightarrow> ('a \<Rightarrow> ('s, 'b) prog) \<Rightarrow> ('s, 'b) prog" where
  "and_then m f = (\<lambda>s. case m s of (Inl e, s') \<Rightarrow> (Inl e, s') | (Inr x, s') \<Rightarrow> f x s')"

definition seq :: "('s, unit) prog \<Rightarrow> ('s, 'b) prog \<Rightarrow> ('s, 'b) prog" where
  "seq m n = and_then m (\<lambda>_. n)"

definition try_catch :: "('s, 'a) prog \<Rightarrow> (exn \<Rightarrow> ('s, 'a) prog) \<Rightarrow> ('s, 'a) prog" where
  "try_catch m h = (\<lambda>s. case m s of (Inl e, s') \<Rightarrow> h e s' | (Inr x, s') \<Rightarrow> (Inr x, s'))"

definition try_finally :: "('s, 'a) prog \<Rightarrow> ('s, unit) prog \<Rightarrow> ('s, 'a) prog" where
  "try_finally m fin =
     (\<lambda>s. case m s of (r, s') \<Rightarrow>
        (case fin s' of (Inl e, s'') \<Rightarrow> (Inl e, s'') | (Inr _, s'') \<Rightarrow> (r, s'')))"

definition of_result :: "exn + 'a \<Rightarrow> ('s, 'a) prog" where
  "of_result r = (\<lambda>s. (r, s))"

definition emit :: "'c event \<Rightarrow> ('c world, unit) prog" where
  "emit ev = (\<lambda>s. (Inr (), s\<lparr>trace := trace s @ [ev]\<rparr>))"

definition console_log :: "string \<Rightarrow> 'c arg list \<Rightarrow> ('c world, unit) prog" where
  "console_log m args = emit (ConsoleLog m args)"

definition console_error :: "string \<Rightarrow> 'c arg list \<Rightarrow> ('c world, unit) prog" where
  "console_error m args = emit (ConsoleError m args)"

definition Alert_alert :: "string \<Rightarrow> string \<Rightarrow> ('c world, unit) prog" where
  "Alert_alert title body = emit (Alert title body)"

definition setIsSwitchOn :: "json \<Rightarrow> ('c world, unit) prog" where
  "setIsSwitchOn v = (\<lambda>s. emit (SetIsSwitchOn v) (s\<lparr>isSwitchOn := v\<rparr>))"

definition setIsLoading :: "bool \<Rightarrow> ('c world, unit) prog" where
  "setIsLoading v = (\<lambda>s. emit (SetIsLoading v) (s\<lparr>isLoading := v\<rparr>))"

definition setLocations :: "'c row list \<Rightarrow> ('c world, unit) prog" where
  "setLocations v = (\<lambda>s. emit (SetLocations v) (s\<lparr>locations := Some v\<rparr>))"

section \<open>AsyncStorage\<close>

text \<open>
  Each call either fails with the error the platform decides (\<open>Some e\<close>) and leaves the
  storage as it is, or reads or writes the entry.
\<close>

definition AsyncStorage_getItem ::
  "exn option \<Rightarrow> string \<Rightarrow> ('c world, string option) prog" where
  "AsyncStorage_getItem fault k =
     (\<lambda>s. case fault of Some e \<Rightarrow> (Inl e, s) | None \<Rightarrow> (Inr (asyncStorage s k), s))"

definition AsyncStorage_setItem ::
  "exn option \<Rightarrow> string \<Rightarrow> string \<Rightarrow> ('c world, unit) prog" where
  "AsyncStorage_setItem fault k v =
     (\<lambda>s. case fault of
             Some e \<Rightarrow> (Inl e, s)
           | None \<Rightarrow> (Inr (), s\<lparr>asyncStorage := (asyncStorage s)(k \<mapsto> v)\<rparr>))"

section \<open>The preference: loadDarkMode and onToggleSwitch\<close>

definition loadDarkMode :: "'c platform \<Rightarrow> exn option \<Rightarrow> ('c world, unit) prog" where
  "loadDarkMode p fault =
     try_catch
       (and_then (AsyncStorage_getItem fault ''darkMode'') (\<lambda>isDarkMode.
          case isDarkMode of
            None \<Rightarrow> pure ()
          | Some t \<Rightarrow> and_then (of_result (JSON_parse (json_other p) t)) setIsSwitchOn))
       (\<lambda>error. console_error ''Failed to load dark mode.'' [])"

definition onToggleSwitch :: "exn option \<Rightarrow> ('c world, unit) prog" where
  "onToggleSwitch fault =
     (\<lambda>s. (let newValue = \<not> truthy (isSwitchOn s) in
        seq (setIsSwitchOn (JBool newValue))
          (try_catch
             (AsyncStorage_setItem fault ''darkMode'' (JSON_stringify newValue))
             (\<lambda>error. console_error ''Failed to save dark mode.'' []))) s)"


section \<open>expo-sqlite: transactions and statements\<close>

text \<open>
  What the engine lets go wrong in one \<open>withTransactionAsync\<close> call is decided outside
  the program: nothing, or an error at \<open>BEGIN\<close>, at the statement, or at \<open>COMMIT\<close>.
\<close>

datatype fault = NoFault | AtBegin exn | AtStatement exn | AtCommit exn

text \<open>
  \<open>withTransactionAsync task\<close> is \<open>BEGIN\<close>, the task, \<open>COMMIT\<close>; on an error of any of
  them \<open>ROLLBACK\<close> and the error is thrown again. A rollback restores the database file
  to what it was at \<open>BEGIN\<close>. The whole call is one step in this model.
\<close>

definition db_withTransactionAsync ::
  "fault \<Rightarrow> ('c world, 'a) prog \<Rightarrow> ('c world, 'a) prog" where
  "db_withTransactionAsync fault task =
     (\<lambda>s. case seq (emit TxBegin)
                  (case fault of
                     AtBegin e \<Rightarrow> raise e
                   | _ \<Rightarrow> and_then task (\<lambda>x.
                            seq (emit TxCommit)
                              (case fault of AtCommit e \<Rightarrow> raise e | _ \<Rightarrow> pure x))) s of
             (Inl e, s') \<Rightarrow>
               (Inl e, s'\<lparr>database := database s, trace := trace s' @ [TxRollback]\<rparr>)
           | (Inr x, s') \<Rightarrow> (Inr x, s'))"

definition db_execSync :: "fault \<Rightarrow> string \<Rightarrow> ('c world, unit) prog" where
  "db_execSync fault t =
     seq (emit (Sql (CreateTableIfNotExists t)))
       (case fault of
          AtStatement e \<Rightarrow> raise e
        | _ \<Rightarrow> (\<lambda>s. (Inr (), s\<lparr>database := create_table_if_not_exists t (database s)\<rparr>)))"

text \<open>\<open>runSync\<close> returns the \<open>lastInsertRowId\<close> of its result.\<close>

definition db_runSync ::
  "'c platform \<Rightarrow> fault \<Rightarrow> string \<Rightarrow> 'c \<Rightarrow> 'c \<Rightarrow> ('c world, nat) prog" where
  "db_runSync p fault t lat lon =
     seq (emit (Sql (InsertInto t lat lon)))
       (case fault of
          AtStatement e \<Rightarrow> raise e
        | _ \<Rightarrow> (\<lambda>s. case insert_into (real_column p) t lat lon (database s) of
                       Inl e \<Rightarrow> (Inl e, s)
                     | Inr (i, d) \<Rightarrow> (Inr i, s\<lparr>database := d\<rparr>)))"

definition db_getAllSync ::
  "'c platform \<Rightarrow> fault \<Rightarrow> string \<Rightarrow> ('c world, 'c row list) prog" where
  "db_getAllSync p fault t =
     seq (emit (Sql (SelectAll t)))
       (case fault of
          AtStatement e \<Rightarrow> raise e
        | _ \<Rightarrow> (\<lambda>s. (select_all (scan p) t (database s), s)))"

section \<open>The record store operations: createTable, saveLocation, loadLocations\<close>

definition createTable :: "fault \<Rightarrow> ('c world, unit) prog" where
  "createTable fault =
     try_catch
       (seq (db_withTransactionAsync fault (db_execSync fault ''locations''))
          (console_log ''Tabela de localizacoes criada ou ja existe!'' []))
       (\<lambda>error. seq (console_error ''Erro ao criar tabela:'' [AErr error]) (raise error))"

text \<open>
  \<open>insertedId\<close> is \<open>undefined\<close> (\<open>None\<close>) until the task assigns it. The function has no
  \<open>return\<close> statement: its promise resolves to \<open>undefined\<close>, the \<open>None\<close> of the result.
\<close>

definition saveLocation ::
  "'c platform \<Rightarrow> fault \<Rightarrow> 'c \<Rightarrow> 'c \<Rightarrow> ('c world, nat option) prog" where
  "saveLocation p fault lat lon =
     try_catch
       (and_then
          (db_withTransactionAsync fault
             (and_then (db_runSync p fault ''locations'' lat lon)
                (\<lambda>lastInsertRowId. pure (Some lastInsertRowId))))
          (\<lambda>insertedId.
             seq (console_log ''Localizacao salva, ID:'' [AId insertedId]) (pure None)))
       (\<lambda>error. seq (console_error ''Erro ao salvar localizacao:'' [AErr error]) (raise error))"

definition loadLocations :: "'c platform \<Rightarrow> fault \<Rightarrow> ('c world, unit) prog" where
  "loadLocations p fault =
     try_catch
       (and_then
          (db_withTransactionAsync fault (db_getAllSync p fault ''locations''))
          (\<lambda>fetchedData.
             seq (console_log ''Localizacoes carregadas:'' [ARows fetchedData])
               (setLocations fetchedData)))
       (\<lambda>error. seq (console_error ''Erro ao carregar localizacoes:'' [AErr error]) (raise error))"

section \<open>The capture workflow: getLocation\<close>

text \<open>
  The platform's answers are parameters: \<open>perm\<close> is what
  \<open>requestForegroundPermissionsAsync\<close> settles to (a rejection or the status), \<open>pos\<close> what
  \<open>getCurrentPositionAsync\<close> settles to (a rejection or the coordinates), \<open>fs\<close> and \<open>fl\<close>
  the faults of the two transactions. The last log prints the \<open>isLoading\<close> of the render
  in which the function was created, the value at the call.
\<close>

definition getLocation_catch :: "exn \<Rightarrow> ('c world, unit) prog" where
  "getLocation_catch error =
     seq (console_error ''Erro geral na funcao getLocation:'' [AErr error])
       (Alert_alert ''Erro''
          (''Nao foi possivel capturar a localizacao. Detalhes: '' @ detail error
             @ ''. Tente novamente.''))"

definition getLocation_finally :: "bool \<Rightarrow> ('c world, unit) prog" where
  "getLocation_finally isLoading0 =
     seq (setIsLoading False)
       (console_log ''Finalizando captura de localizacao. isLoading:'' [ABool isLoading0])"

definition permission_denied_alert :: "('c world, unit) prog" where
  "permission_denied_alert =
     Alert_alert ''Permissao de Localizacao''
       (''Permissao para acessar a localizacao foi negada. ''
          @ ''Por favor, habilite-a nas configuracoes do seu dispositivo.'')"

definition getLocation ::
  "'c platform \<Rightarrow> exn + string \<Rightarrow> exn + 'c \<times> 'c \<Rightarrow> fault \<Rightarrow> fault \<Rightarrow> ('c world, unit) prog"
  where
  "getLocation p perm pos fs fl =
     (\<lambda>s0.
        (seq (setIsLoading True)
        (seq (console_log ''Iniciando captura de localizacao...'' [])
        (try_finally
           (try_catch
              (seq (console_log ''Solicitando permissao de localizacao...'' [])
              (and_then (of_result perm) (\<lambda>status.
              seq (console_log ''Status da permissao:'' [AStr status])
              (if status \<noteq> ''granted'' then permission_denied_alert
               else
                 seq (console_log ''Obtendo posicao atual...'' [])
                 (and_then (of_result pos) (\<lambda>(lat, lon).
                 seq (console_log ''Localizacao obtida:'' [ACoords lat lon])
                 (seq (console_log ''Latitude: ${latitude}, Longitude: ${longitude}''
                         [ACoords lat lon])
                 (seq (console_log ''Salvando localizacao...'' [])
                 (and_then (saveLocation p fs lat lon) (\<lambda>_.
                 seq (console_log ''Localizacao salva no DB.'' [])
                 (seq (console_log ''Recarregando localizacoes da lista...'' [])
                 (seq (loadLocations p fl)
                 (console_log ''Localizacoes recarregadas.'' [])))))))))))))
              getLocation_catch)
           (getLocation_finally (isLoading s0))))) s0)"

section \<open>The capture workflow, one suspension at a time\<close>

text \<open>
  \<open>getLocation\<close> suspends at each \<open>await\<close>: the permission request, the position
  request, \<open>saveLocation\<close> and \<open>loadLocations\<close>. Between two suspensions it runs without
  interruption; while it is suspended, other handlers run, another \<open>getLocation\<close> among
  them. A task is an invocation that is suspended, with the \<open>isLoading\<close> its closure
  holds, or settled.
\<close>

datatype 'c awaiting = AwaitPermission | AwaitPosition | AwaitSave 'c 'c | AwaitLoad

datatype 'c task = Suspended "'c awaiting" bool | Settled "exn + unit"

datatype 'c settlement =
    PermissionSettled "exn + string"
  | PositionSettled "exn + 'c \<times> 'c"
  | TransactionSettled fault

text \<open>
  A segment of the body of the \<open>try\<close> runs to the next \<open>await\<close> (\<open>Some\<close>), to the end of
  the body or a \<open>return\<close> (\<open>None\<close>), or throws; the last two pass through \<open>catch\<close> and
  \<open>finally\<close>.
\<close>

definition run_segment ::
  "bool \<Rightarrow> ('c world, 'c awaiting option) prog \<Rightarrow> 'c world \<Rightarrow> 'c task \<times> 'c world" where
  "run_segment isLoading0 m s =
     (case m s of
        (Inr (Some a), s') \<Rightarrow> (Suspended a isLoading0, s')
      | (Inr None, s') \<Rightarrow>
          (case try_finally (pure ()) (getLocation_finally isLoading0) s' of
             (r, s'') \<Rightarrow> (Settled r, s''))
      | (Inl e, s') \<Rightarrow>
          (case try_finally (getLocation_catch e) (getLocation_finally isLoading0) s' of
             (r, s'') \<Rightarrow> (Settled r, s'')))"

definition getLocation_start :: "'c world \<Rightarrow> 'c task \<times> 'c world" where
  "getLocation_start s0 =
     (case (seq (setIsLoading True)
             (console_log ''Iniciando captura de localizacao...'' [])) s0 of
        (_, s) \<Rightarrow>
          run_segment (isLoading s0)
            (seq (console_log ''Solicitando permissao de localizacao...'' [])
               (pure (Some AwaitPermission))) s)"

fun getLocation_resume ::
  "'c platform \<Rightarrow> 'c settlement \<Rightarrow> 'c task \<Rightarrow> 'c world \<Rightarrow> 'c task \<times> 'c world" where
  "getLocation_resume p (PermissionSettled perm) (Suspended AwaitPermission l0) s =
     run_segment l0
       (and_then (of_result perm) (\<lambda>status.
        seq (console_log ''Status da permissao:'' [AStr status])
        (if status \<noteq> ''granted'' then seq permission_denied_alert (pure None)
         else seq (console_log ''Obtendo posicao atual...'' [])
                (pure (Some AwaitPosition))))) s"
| "getLocation_resume p (PositionSettled pos) (Suspended AwaitPosition l0) s =
     run_segment l0
       (and_then (of_result pos) (\<lambda>(lat, lon).
        seq (console_log ''Localizacao obtida:'' [ACoords lat lon])
        (seq (console_log ''Latitude: ${latitude}, Longitude: ${longitude}''
                [ACoords lat lon])
        (seq (console_log ''Salvando localizacao...'' [])
        (pure (Some (AwaitSave lat lon))))))) s"
| "getLocation_resume p (TransactionSettled fs) (Suspended (AwaitSave lat lon) l0) s =
     run_segment l0
       (and_then (saveLocation p fs lat lon) (\<lambda>_.
        seq (console_log ''Localizacao salva no DB.'' [])
        (seq (console_log ''Recarregando localizacoes da lista...'' [])
        (pure (Some AwaitLoad))))) s"
| "getLocation_resume p (TransactionSettled fl) (Suspended AwaitLoad l0) s =
     run_segment l0
       (seq (loadLocations p fl)
       (seq (console_log ''Localizacoes recarregadas.'' [])
       (pure None))) s"
| "getLocation_resume p x t s = (t, s)"

text \<open>A suspended invocation, resumed until it settles with nothing else in between.\<close>

definition getLocation_finish ::
  "'c platform \<Rightarrow> exn + string \<Rightarrow> exn + 'c \<times> 'c \<Rightarrow> fault \<Rightarrow> fault
     \<Rightarrow> 'c task \<Rightarrow> 'c world \<Rightarrow> 'c task \<times> 'c world" where
  "getLocation_finish p perm pos fs fl t0 s0 =
     (case getLocation_resume p (PermissionSettled perm) t0 s0 of (t1, s1) \<Rightarrow>
      case getLocation_resume p (PositionSettled pos) t1 s1 of (t2, s2) \<Rightarrow>
      case getLocation_resume p (TransactionSettled fs) t2 s2 of (t3, s3) \<Rightarrow>
      getLocation_resume p (TransactionSettled fl) t3 s3)"

text \<open>
  Two presses of the button: the second invocation starts while the first is suspended at
  the permission request, and settles first.
\<close>

definition overlapping_captures ::
  "'c platform \<Rightarrow> 'c \<times> 'c \<Rightarrow> 'c \<times> 'c \<Rightarrow> 'c world \<Rightarrow> ('c task \<times> 'c task \<times> 'c task) \<times> 'c world"
  where
  "overlapping_captures p first second s0 =
     (case getLocation_start s0 of (a, s1) \<Rightarrow>
      case getLocation_start s1 of (b, s2) \<Rightarrow>
      case getLocation_finish p (Inr ''granted'') (Inr second) NoFault NoFault b s2 of
        (b', s3) \<Rightarrow>
      case getLocation_finish p (Inr ''granted'') (Inr first) NoFault NoFault a s3 of
        (a', s4) \<Rightarrow> ((b, a', b'), s4))"

section \<open>Outcomes of a capture, and what an invocation added to the trace\<close>

definition new_events :: "'c world \<Rightarrow> 'c world \<Rightarrow> 'c event list" where
  "new_events s s' = drop (length (trace s)) (trace s')"

fun is_Alert :: "'c event \<Rightarrow> bool" where
  "is_Alert (Alert title body) = True"
| "is_Alert ev = False"

fun is_SetLocations :: "'c event \<Rightarrow> bool" where
  "is_SetLocations (SetLocations rows) = True"
| "is_SetLocations ev = False"

fun is_Insert :: "'c event \<Rightarrow> bool" where
  "is_Insert (Sql (InsertInto t lat lon)) = True"
| "is_Insert ev = False"

fun is_Select :: "'c event \<Rightarrow> bool" where
  "is_Select (Sql (SelectAll t)) = True"
| "is_Select ev = False"

text \<open>
  A capture fails before anything is committed when the permission request is rejected or
  answers anything but \<open>granted\<close>, when the position request is rejected, or when the
  insert fails (a fault of the engine, or no table). It fails at the reload when the
  insert was committed and the transaction of the \<open>SELECT\<close> has a fault.
\<close>

definition insert_succeeds :: "fault \<Rightarrow> 'c world \<Rightarrow> bool" where
  "insert_succeeds fs s = (fs = NoFault \<and> tables (database s) ''locations'' \<noteq> None)"

definition fails_before_commit ::
  "exn + string \<Rightarrow> exn + 'c \<times> 'c \<Rightarrow> fault \<Rightarrow> 'c world \<Rightarrow> bool" where
  "fails_before_commit perm pos fs s =
     (case perm of
        Inl e \<Rightarrow> True
      | Inr status \<Rightarrow>
          status \<noteq> ''granted'' \<or>
          (case pos of Inl e \<Rightarrow> True | Inr c \<Rightarrow> \<not> insert_succeeds fs s))"

definition fails_at_reload ::
  "exn + string \<Rightarrow> exn + 'c \<times> 'c \<Rightarrow> fault \<Rightarrow> fault \<Rightarrow> 'c world \<Rightarrow> bool" where
  "fails_at_reload perm pos fs fl s =
     (\<not> fails_before_commit perm pos fs s \<and> fl \<noteq> NoFault)"

section \<open>Repeated calls, examples\<close>

fun createTable_calls :: "nat \<Rightarrow> 'c world \<Rightarrow> (exn + unit) list \<times> 'c world" where
  "createTable_calls 0 s = ([], s)"
| "createTable_calls (Suc n) s =
     (case createTable NoFault s of (r, s') \<Rightarrow>
      case createTable_calls n s' of (rs, s'') \<Rightarrow> (r # rs, s''))"

definition fresh_install :: "'c world" where
  "fresh_install =
     \<lparr>database = \<lparr>tables = Map.empty, sequence = (\<lambda>t. 0)\<rparr>,
      asyncStorage = Map.empty, isSwitchOn = JBool False, isLoading = False,
      locations = None, trace = []\<rparr>"

text \<open>
  A platform for the examples: SQLite's scan by rowid, a parser that rejects every text
  other than \<open>true\<close> and \<open>false\<close>, and columns that hold the bound value (the coordinates
  of the examples are real numbers, none of them NaN). The second one scans a table
  backwards, as SQLite does for a \<open>SELECT\<close> without \<open>ORDER BY\<close> under
  \<open>PRAGMA reverse_unordered_selects\<close>.
\<close>

definition example_platform :: "'c platform" where
  "example_platform =
     \<lparr>json_other = (\<lambda>t. Inl (Error ''SyntaxError'')), scan = rowid_scan,
      real_column = (\<lambda>x. x)\<rparr>"

definition backwards_platform :: "'c platform" where
  "backwards_platform =
     \<lparr>json_other = (\<lambda>t. Inl (Error ''SyntaxError'')), scan = rev,
      real_column = (\<lambda>x. x)\<rparr>"

text \<open>
  Coordinates as JavaScript has them: a finite number, NaN, or the \<open>null\<close> that a \<open>NULL\<close>
  column is read back as; and a platform whose \<open>REAL\<close> columns store NaN as \<open>NULL\<close>, as
  SQLite's do.
\<close>

datatype coordinate = Finite real | NaN | Null

fun sqlite_real :: "coordinate \<Rightarrow> coordinate" where
  "sqlite_real NaN = Null"
| "sqlite_real c = c"

definition sqlite_platform :: "coordinate platform" where
  "sqlite_platform =
     \<lparr>json_other = (\<lambda>t. Inl (Error ''SyntaxError'')), scan = rowid_scan,
      real_column = sqlite_real\<rparr>"

definition empty_coordinate_store :: "coordinate world" where
  "empty_coordinate_store = snd (createTable NoFault fresh_install)"

text \<open>An installation whose stored preference is not JSON.\<close>

definition unparsable_preference :: "real world" where
  "unparsable_preference = fresh_install\<lparr>asyncStorage := [''darkMode'' \<mapsto> ''{dark'']\<rparr>"

text \<open>The store after the first start of the application on a fresh installation.\<close>

definition empty_store :: "real world" where
  "empty_store = snd (createTable NoFault fresh_install)"

text \<open>The store after inserting (37.422, -122.084) and then (40.000, -73.000).\<close>

definition two_records :: "real world" where
  "two_records =
     snd (saveLocation example_platform NoFault 40.000 (-73.000)
       (snd (saveLocation example_platform NoFault 37.422 (-122.084) empty_store)))"

text \<open>The row an insert adds to the rows of \<open>locations\<close>, and the database it commits.\<close>

definition new_row ::
  "'c platform \<Rightarrow> 'c row list \<Rightarrow> 'c database \<Rightarrow> 'c \<Rightarrow> 'c \<Rightarrow> 'c row" where
  "new_row p rows d lat lon =
     \<lparr>row_id = next_rowid ''locations'' rows d,
      latitude = real_column p lat, longitude = real_column p lon\<rparr>"

definition committed ::
  "'c platform \<Rightarrow> 'c row list \<Rightarrow> 'c \<Rightarrow> 'c \<Rightarrow> 'c database \<Rightarrow> 'c database" where
  "committed p rows lat lon d =
     d\<lparr>tables := (tables d)(''locations'' \<mapsto> rows @ [new_row p rows d lat lon]),
       sequence := (sequence d)(''locations'' := next_rowid ''locations'' rows d)\<rparr>"

section \<open>Unfolding rules\<close>

lemmas prog_defs =
  pure_def raise_def and_then_def seq_def try_catch_def try_finally_def of_result_def
  emit_def console_log_def console_error_def Alert_alert_def
  setIsSwitchOn_def setIsLoading_def setLocations_def
  AsyncStorage_getItem_def AsyncStorage_setItem_def

lemmas db_defs =
  db_withTransactionAsync_def db_execSync_def db_runSync_def db_getAllSync_def
  create_table_if_not_exists_def insert_into_def select_all_def

lemmas workflow_defs =
  getLocation_def getLocation_catch_def getLocation_finally_def permission_denied_alert_def

section \<open>The dark-mode preference\<close>

text \<open>
  C7. The preference round-trips. A toggle whose write succeeds stores the text of the new
  value, and loading it after a restart gives that value, true or false; when no value
  was ever stored, the load after a restart gives the default false.
\<close>

theorem darkMode_round_trip:
  "isSwitchOn (snd (loadDarkMode p None (restart (snd (onToggleSwitch None s)))))
      = JBool (\<not> truthy (isSwitchOn s))
   \<and> asyncStorage (snd (onToggleSwitch None s)) ''darkMode''
      = Some (JSON_stringify (\<not> truthy (isSwitchOn s)))
   \<and> (asyncStorage s ''darkMode'' = None \<longrightarrow>
        isSwitchOn (snd (loadDarkMode p None (restart s))) = JBool False)"
  by (simp add: loadDarkMode_def onToggleSwitch_def restart_def prog_defs Let_def
        JSON_parse_def JSON_stringify_def)

theorem darkMode_round_trip_witness:
  "asyncStorage (fresh_install :: real world) ''darkMode'' = None
   \<and> isSwitchOn (snd (loadDarkMode example_platform None (restart (fresh_install :: real world))))
       = JBool False
   \<and> isSwitchOn (snd (loadDarkMode example_platform None
        (restart (snd (onToggleSwitch None (fresh_install :: real world)))))) = JBool True"
  using darkMode_round_trip [of example_platform "fresh_install :: real world"]
  by (simp add: fresh_install_def)

text \<open>
  C8, as the claim states it: after a toggle whose write fails the theme is the default
  one. On a fresh installation the flag is true after such a toggle.
\<close>

theorem toggle_write_failure_counterexample:
  "isSwitchOn (snd (onToggleSwitch (Some (Error ''write failed'')) (fresh_install :: real world)))
     = JBool True
   \<and> isSwitchOn (fresh_install :: real world) = JBool False"
  by (simp add: onToggleSwitch_def prog_defs Let_def fresh_install_def)

text \<open>
  C8, amended. A toggle whose write fails returns normally; all it does is to set the flag
  to the toggled value and to log the failure with \<open>console.error\<close>: no alert, the flag
  keeps the value that was not stored, and the storage is as it was.
\<close>

theorem toggle_write_failure:
  "onToggleSwitch (Some e) s =
     (Inr (), s\<lparr>isSwitchOn := JBool (\<not> truthy (isSwitchOn s)),
                trace := trace s @ [SetIsSwitchOn (JBool (\<not> truthy (isSwitchOn s))),
                                    ConsoleError ''Failed to save dark mode.'' []]\<rparr>)"
  by (simp add: onToggleSwitch_def prog_defs Let_def)

text \<open>
  C10. When the stored \<open>darkMode\<close> value is absent or does not parse, \<open>loadDarkMode\<close>
  returns normally and leaves the flag as it is, false after a start of the application;
  a value that does not parse is logged with \<open>console.error\<close>, an absent one changes
  nothing at all.
\<close>

theorem loadDarkMode_absent_or_unparsable:
  assumes "asyncStorage s ''darkMode'' = None
           \<or> (\<exists>t e. asyncStorage s ''darkMode'' = Some t
                     \<and> JSON_parse (json_other p) t = Inl e)"
  shows "fst (loadDarkMode p f s) = Inr ()
         \<and> isSwitchOn (snd (loadDarkMode p f s)) = isSwitchOn s
         \<and> isSwitchOn (snd (loadDarkMode p f (restart s))) = JBool False
         \<and> (asyncStorage s ''darkMode'' \<noteq> None \<or> f \<noteq> None \<longrightarrow>
              trace (snd (loadDarkMode p f s))
                = trace s @ [ConsoleError ''Failed to load dark mode.'' []])
         \<and> (asyncStorage s ''darkMode'' = None \<and> f = None \<longrightarrow>
              loadDarkMode p f s = (Inr (), s))"
  using assms
  by (auto simp add: loadDarkMode_def restart_def prog_defs split: option.splits)

theorem loadDarkMode_absent_or_unparsable_witness:
  "asyncStorage unparsable_preference ''darkMode'' = Some ''{dark''
   \<and> JSON_parse (json_other example_platform) ''{dark'' = Inl (Error ''SyntaxError'')
   \<and> fst (loadDarkMode example_platform None unparsable_preference) = Inr ()
   \<and> isSwitchOn (snd (loadDarkMode example_platform None unparsable_preference)) = JBool False
   \<and> trace (snd (loadDarkMode example_platform None unparsable_preference))
       = [ConsoleError ''Failed to load dark mode.'' []]"
proof -
  have h: "asyncStorage unparsable_preference ''darkMode'' = None
           \<or> (\<exists>t e. asyncStorage unparsable_preference ''darkMode'' = Some t
                     \<and> JSON_parse (json_other example_platform) t = Inl e)"
    by (simp add: unparsable_preference_def fresh_install_def example_platform_def
        JSON_parse_def)
  show ?thesis
    using loadDarkMode_absent_or_unparsable [OF h, of None]
    by (simp add: unparsable_preference_def fresh_install_def example_platform_def
        JSON_parse_def)
qed

section \<open>The record store operations\<close>

lemma saveLocation_success:
  assumes "tables (database s) ''locations'' = Some rows"
  shows "saveLocation p NoFault lat lon s =
     (Inr None,
      s\<lparr>database := committed p rows lat lon (database s),
        trace := trace s @ [TxBegin, Sql (InsertInto ''locations'' lat lon), TxCommit,
          ConsoleLog ''Localizacao salva, ID:''
            [AId (Some (next_rowid ''locations'' rows (database s)))]]\<rparr>)"
  using assms
  by (simp add: saveLocation_def db_defs prog_defs committed_def new_row_def Let_def)

lemma saveLocation_failure_state:
  assumes "\<not> insert_succeeds fs s"
  shows "snd (saveLocation p fs lat lon s)
           = s\<lparr>trace := trace s @ new_events s (snd (saveLocation p fs lat lon s))\<rparr>"
  using assms
  by (cases fs) (simp_all add: insert_succeeds_def saveLocation_def db_defs prog_defs
      new_events_def Let_def split: option.splits)

lemma saveLocation_failure_result:
  assumes "\<not> insert_succeeds fs s"
  shows "\<exists>e. fst (saveLocation p fs lat lon s) = Inl e"
  using assms
  by (cases fs) (simp_all add: insert_succeeds_def saveLocation_def db_defs prog_defs
      Let_def split: option.splits)

lemma saveLocation_failure_events:
  assumes "\<not> insert_succeeds fs s"
  shows "\<forall>ev \<in> set (new_events s (snd (saveLocation p fs lat lon s))).
           \<not> is_SetLocations ev \<and> \<not> is_Select ev \<and> \<not> is_Alert ev"
  using assms
  by (cases fs) (simp_all add: insert_succeeds_def saveLocation_def db_defs prog_defs
      new_events_def Let_def split: option.splits)

lemma saveLocation_failure_inserts:
  assumes "\<not> insert_succeeds fs s"
  shows "length (filter is_Insert (new_events s (snd (saveLocation p fs lat lon s)))) \<le> 1"
  using assms
  by (cases fs) (simp_all add: insert_succeeds_def saveLocation_def db_defs prog_defs
      new_events_def Let_def split: option.splits)

lemma saveLocation_failure:
  assumes "\<not> insert_succeeds fs s"
  obtains e evs where "saveLocation p fs lat lon s = (Inl e, s\<lparr>trace := trace s @ evs\<rparr>)"
    and "\<forall>ev \<in> set evs. \<not> is_SetLocations ev \<and> \<not> is_Select ev \<and> \<not> is_Alert ev"
    and "length (filter is_Insert evs) \<le> 1"
proof -
  obtain e where "fst (saveLocation p fs lat lon s) = Inl e"
    using saveLocation_failure_result [OF assms] by blast
  then have "saveLocation p fs lat lon s
      = (Inl e, s\<lparr>trace := trace s @ new_events s (snd (saveLocation p fs lat lon s))\<rparr>)"
    using saveLocation_failure_state [OF assms, of p lat lon]
    by (metis prod.collapse)
  then show thesis
    using saveLocation_failure_events [OF assms, of p lat lon]
      saveLocation_failure_inserts [OF assms, of p lat lon] that by blast
qed

lemma loadLocations_success:
  assumes "tables (database s) ''locations'' = Some rows"
  shows "loadLocations p NoFault s =
     (Inr (),
      s\<lparr>locations := Some (scan p rows),
        trace := trace s @ [TxBegin, Sql (SelectAll ''locations''), TxCommit,
          ConsoleLog ''Localizacoes carregadas:'' [ARows (scan p rows)],
          SetLocations (scan p rows)]\<rparr>)"
  using assms
  by (simp add: loadLocations_def db_defs prog_defs)

lemma loadLocations_failure_state:
  assumes "fl \<noteq> NoFault \<or> tables (database s) ''locations'' = None"
  shows "snd (loadLocations p fl s)
           = s\<lparr>trace := trace s @ new_events s (snd (loadLocations p fl s))\<rparr>"
  using assms
  by (cases fl) (simp_all add: loadLocations_def db_defs prog_defs
      new_events_def split: option.splits)

lemma loadLocations_failure_result:
  assumes "fl \<noteq> NoFault \<or> tables (database s) ''locations'' = None"
  shows "\<exists>e. fst (loadLocations p fl s) = Inl e"
  using assms
  by (cases fl) (simp_all add: loadLocations_def db_defs prog_defs split: option.splits)

lemma loadLocations_failure_events:
  assumes "fl \<noteq> NoFault \<or> tables (database s) ''locations'' = None"
  shows "\<forall>ev \<in> set (new_events s (snd (loadLocations p fl s))).
           \<not> is_SetLocations ev \<and> \<not> is_Insert ev \<and> \<not> is_Alert ev"
  using assms
  by (cases fl) (simp_all add: loadLocations_def db_defs prog_defs
      new_events_def split: option.splits)

lemma loadLocations_failure:
  assumes "fl \<noteq> NoFault \<or> tables (database s) ''locations'' = None"
  obtains e evs where "loadLocations p fl s = (Inl e, s\<lparr>trace := trace s @ evs\<rparr>)"
    and "\<forall>ev \<in> set evs. \<not> is_SetLocations ev \<and> \<not> is_Insert ev \<and> \<not> is_Alert ev"
proof -
  obtain e where "fst (loadLocations p fl s) = Inl e"
    using loadLocations_failure_result [OF assms] by blast
  then have "loadLocations p fl s
      = (Inl e, s\<lparr>trace := trace s @ new_events s (snd (loadLocations p fl s))\<rparr>)"
    using loadLocations_failure_state [OF assms, of p]
    by (metis prod.collapse)
  then show thesis
    using loadLocations_failure_events [OF assms, of p] that by blast
qed

lemma createTable_success:
  "createTable NoFault s =
     (Inr (),
      s\<lparr>database := create_table_if_not_exists ''locations'' (database s),
        trace := trace s @ [TxBegin, Sql (CreateTableIfNotExists ''locations''), TxCommit,
          ConsoleLog ''Tabela de localizacoes criada ou ja existe!'' []]\<rparr>)"
  by (simp add: createTable_def db_withTransactionAsync_def db_execSync_def prog_defs)

text \<open>Without an engine fault the two operations depend on the table only.\<close>

lemma saveLocation_NoFault:
  "saveLocation p NoFault lat lon s =
     (case tables (database s) ''locations'' of
        None \<Rightarrow>
          (Inl (Error ''no such table: locations''),
           s\<lparr>trace := trace s @ [TxBegin, Sql (InsertInto ''locations'' lat lon), TxRollback,
              ConsoleError ''Erro ao salvar localizacao:''
                [AErr (Error ''no such table: locations'')]]\<rparr>)
      | Some rows \<Rightarrow>
          (Inr None,
           s\<lparr>database := committed p rows lat lon (database s),
             trace := trace s @ [TxBegin, Sql (InsertInto ''locations'' lat lon), TxCommit,
               ConsoleLog ''Localizacao salva, ID:''
                 [AId (Some (next_rowid ''locations'' rows (database s)))]]\<rparr>))"
  by (simp add: saveLocation_def db_defs prog_defs committed_def new_row_def Let_def
      split: option.splits)

lemma loadLocations_NoFault:
  "loadLocations p NoFault s =
     (case tables (database s) ''locations'' of
        None \<Rightarrow>
          (Inl (Error ''no such table: locations''),
           s\<lparr>trace := trace s @ [TxBegin, Sql (SelectAll ''locations''), TxRollback,
              ConsoleError ''Erro ao carregar localizacoes:''
                [AErr (Error ''no such table: locations'')]]\<rparr>)
      | Some rows \<Rightarrow>
          (Inr (),
           s\<lparr>locations := Some (scan p rows),
             trace := trace s @ [TxBegin, Sql (SelectAll ''locations''), TxCommit,
               ConsoleLog ''Localizacoes carregadas:'' [ARows (scan p rows)],
               SetLocations (scan p rows)]\<rparr>))"
  by (simp add: loadLocations_def db_defs prog_defs split: option.splits)

section \<open>The paths of getLocation\<close>

lemma getLocation_rejected:
  "getLocation p (Inl e) pos fs fl s =
     (Inr (),
      s\<lparr>isLoading := False,
        trace := trace s @
          [SetIsLoading True,
           ConsoleLog ''Iniciando captura de localizacao...'' [],
           ConsoleLog ''Solicitando permissao de localizacao...'' [],
           ConsoleError ''Erro geral na funcao getLocation:'' [AErr e],
           Alert ''Erro''
             (''Nao foi possivel capturar a localizacao. Detalhes: '' @ detail e
                @ ''. Tente novamente.''),
           SetIsLoading False,
           ConsoleLog ''Finalizando captura de localizacao. isLoading:''
             [ABool (isLoading s)]]\<rparr>)"
  by (simp add: workflow_defs prog_defs)

lemma getLocation_denied:
  assumes "status \<noteq> ''granted''"
  shows "getLocation p (Inr status) pos fs fl s =
     (Inr (),
      s\<lparr>isLoading := False,
        trace := trace s @
          [SetIsLoading True,
           ConsoleLog ''Iniciando captura de localizacao...'' [],
           ConsoleLog ''Solicitando permissao de localizacao...'' [],
           ConsoleLog ''Status da permissao:'' [AStr status],
           Alert ''Permissao de Localizacao''
             (''Permissao para acessar a localizacao foi negada. ''
                @ ''Por favor, habilite-a nas configuracoes do seu dispositivo.''),
           SetIsLoading False,
           ConsoleLog ''Finalizando captura de localizacao. isLoading:''
             [ABool (isLoading s)]]\<rparr>)"
  using assms by (simp add: workflow_defs prog_defs)

lemma getLocation_no_position:
  "getLocation p (Inr ''granted'') (Inl e) fs fl s =
     (Inr (),
      s\<lparr>isLoading := False,
        trace := trace s @
          [SetIsLoading True,
           ConsoleLog ''Iniciando captura de localizacao...'' [],
           ConsoleLog ''Solicitando permissao de localizacao...'' [],
           ConsoleLog ''Status da permissao:'' [AStr ''granted''],
           ConsoleLog ''Obtendo posicao atual...'' [],
           ConsoleError ''Erro geral na funcao getLocation:'' [AErr e],
           Alert ''Erro''
             (''Nao foi possivel capturar a localizacao. Detalhes: '' @ detail e
                @ ''. Tente novamente.''),
           SetIsLoading False,
           ConsoleLog ''Finalizando captura de localizacao. isLoading:''
             [ABool (isLoading s)]]\<rparr>)"
  by (simp add: workflow_defs prog_defs)

text \<open>The state in which \<open>saveLocation\<close> is called, and the one in which \<open>loadLocations\<close> is.\<close>

lemma getLocation_granted:
  "getLocation p (Inr ''granted'') (Inr (lat, lon)) fs fl s =
     (case saveLocation p fs lat lon
             (s\<lparr>isLoading := True,
                trace := trace s @
                  [SetIsLoading True,
                   ConsoleLog ''Iniciando captura de localizacao...'' [],
                   ConsoleLog ''Solicitando permissao de localizacao...'' [],
                   ConsoleLog ''Status da permissao:'' [AStr ''granted''],
                   ConsoleLog ''Obtendo posicao atual...'' [],
                   ConsoleLog ''Localizacao obtida:'' [ACoords lat lon],
                   ConsoleLog ''Latitude: ${latitude}, Longitude: ${longitude}''
                     [ACoords lat lon],
                   ConsoleLog ''Salvando localizacao...'' []]\<rparr>) of
        (Inl e, s2) \<Rightarrow>
          (Inr (),
           s2\<lparr>isLoading := False,
              trace := trace s2 @
                [ConsoleError ''Erro geral na funcao getLocation:'' [AErr e],
                 Alert ''Erro''
                   (''Nao foi possivel capturar a localizacao. Detalhes: '' @ detail e
                      @ ''. Tente novamente.''),
                 SetIsLoading False,
                 ConsoleLog ''Finalizando captura de localizacao. isLoading:''
                   [ABool (isLoading s)]]\<rparr>)
      | (Inr v, s2) \<Rightarrow>
          (case loadLocations p fl
                  (s2\<lparr>trace := trace s2 @
                       [ConsoleLog ''Localizacao salva no DB.'' [],
                        ConsoleLog ''Recarregando localizacoes da lista...'' []]\<rparr>) of
             (Inl e, s3) \<Rightarrow>
               (Inr (),
                s3\<lparr>isLoading := False,
                   trace := trace s3 @
                     [ConsoleError ''Erro geral na funcao getLocation:'' [AErr e],
                      Alert ''Erro''
                        (''Nao foi possivel capturar a localizacao. Detalhes: '' @ detail e
                           @ ''. Tente novamente.''),
                      SetIsLoading False,
                      ConsoleLog ''Finalizando captura de localizacao. isLoading:''
                        [ABool (isLoading s)]]\<rparr>)
           | (Inr u, s3) \<Rightarrow>
               (Inr (),
                s3\<lparr>isLoading := False,
                   trace := trace s3 @
                     [ConsoleLog ''Localizacoes recarregadas.'' [],
                      SetIsLoading False,
                      ConsoleLog ''Finalizando captura de localizacao. isLoading:''
                        [ABool (isLoading s)]]\<rparr>)))"
  by (simp add: workflow_defs prog_defs split: prod.splits sum.splits)

section \<open>Outcomes of a capture\<close>

lemma capture_fails_before_commit:
  assumes "fails_before_commit perm pos fs s"
  obtains evs where
    "getLocation p perm pos fs fl s = (Inr (), s\<lparr>isLoading := False, trace := trace s @ evs\<rparr>)"
    and "\<exists>ev \<in> set evs. is_Alert ev"
    and "\<forall>ev \<in> set evs. \<not> is_SetLocations ev \<and> \<not> is_Select ev"
    and "length (filter is_Insert evs) \<le> 1"
proof (cases perm)
  case (Inl e)
  show thesis
    by (rule that, simp add: Inl getLocation_rejected, simp_all)
next
  case (Inr status)
  show thesis
  proof (cases "status = ''granted''")
    case False
    show thesis
      by (rule that, simp add: Inr getLocation_denied [OF False], simp_all)
  next
    case True
    show thesis
    proof (cases pos)
      case (Inl e)
      show thesis
        by (rule that, simp add: Inr True Inl getLocation_no_position, simp_all)
    next
      case pos: (Inr c)
      obtain lat lon where c: "c = (lat, lon)"
        by (cases c)
      let ?s1 = "s\<lparr>isLoading := True,
                trace := trace s @
                  [SetIsLoading True,
                   ConsoleLog ''Iniciando captura de localizacao...'' [],
                   ConsoleLog ''Solicitando permissao de localizacao...'' [],
                   ConsoleLog ''Status da permissao:'' [AStr ''granted''],
                   ConsoleLog ''Obtendo posicao atual...'' [],
                   ConsoleLog ''Localizacao obtida:'' [ACoords lat lon],
                   ConsoleLog ''Latitude: ${latitude}, Longitude: ${longitude}''
                     [ACoords lat lon],
                   ConsoleLog ''Salvando localizacao...'' []]\<rparr>"
      from assms have "\<not> insert_succeeds fs ?s1"
        by (simp add: fails_before_commit_def insert_succeeds_def Inr True pos)
      then obtain e evs where
        save: "saveLocation p fs lat lon ?s1 = (Inl e, ?s1\<lparr>trace := trace ?s1 @ evs\<rparr>)"
        and evs: "\<forall>ev \<in> set evs. \<not> is_SetLocations ev \<and> \<not> is_Select ev \<and> \<not> is_Alert ev"
          "length (filter is_Insert evs) \<le> 1"
        by (rule saveLocation_failure)
      show thesis
        by (rule that, use save in \<open>simp add: Inr True pos c getLocation_granted\<close>, use evs in simp_all)
    qed
  qed
qed

lemma capture_fails_at_reload:
  assumes "fails_at_reload perm pos fs fl s"
  obtains lat lon rows evs where
    "perm = Inr ''granted''" and "pos = Inr (lat, lon)" and "fs = NoFault"
    and "tables (database s) ''locations'' = Some rows"
    and "getLocation p perm pos fs fl s =
           (Inr (), s\<lparr>database := committed p rows lat lon (database s), isLoading := False,
                      trace := trace s @ evs\<rparr>)"
    and "\<exists>ev \<in> set evs. is_Alert ev"
    and "\<forall>ev \<in> set evs. \<not> is_SetLocations ev"
    and "length (filter is_Insert evs) = 1"
proof -
  from assms obtain lat lon rows where
    perm: "perm = Inr ''granted''" and pos: "pos = Inr (lat, lon)" and fs: "fs = NoFault"
    and rows: "tables (database s) ''locations'' = Some rows" and fl: "fl \<noteq> NoFault"
    by (auto simp add: fails_at_reload_def fails_before_commit_def insert_succeeds_def
        split: sum.splits)
  let ?s1 = "s\<lparr>isLoading := True,
            trace := trace s @
              [SetIsLoading True,
               ConsoleLog ''Iniciando captura de localizacao...'' [],
               ConsoleLog ''Solicitando permissao de localizacao...'' [],
               ConsoleLog ''Status da permissao:'' [AStr ''granted''],
               ConsoleLog ''Obtendo posicao atual...'' [],
               ConsoleLog ''Localizacao obtida:'' [ACoords lat lon],
               ConsoleLog ''Latitude: ${latitude}, Longitude: ${longitude}''
                 [ACoords lat lon],
               ConsoleLog ''Salvando localizacao...'' []]\<rparr>"
  have rows1: "tables (database ?s1) ''locations'' = Some rows"
    using rows by simp
  note save = saveLocation_success [OF rows1, of p lat lon]
  let ?s2 = "?s1\<lparr>database := committed p rows lat lon (database ?s1),
        trace := trace ?s1 @ [TxBegin, Sql (InsertInto ''locations'' lat lon), TxCommit,
          ConsoleLog ''Localizacao salva, ID:''
            [AId (Some (next_rowid ''locations'' rows (database ?s1)))]]
          @ [ConsoleLog ''Localizacao salva no DB.'' [],
             ConsoleLog ''Recarregando localizacoes da lista...'' []]\<rparr>"
  have "fl \<noteq> NoFault \<or> tables (database ?s2) ''locations'' = None"
    using fl by simp
  then obtain e evs where
    load: "loadLocations p fl ?s2 = (Inl e, ?s2\<lparr>trace := trace ?s2 @ evs\<rparr>)"
    and evs: "\<forall>ev \<in> set evs. \<not> is_SetLocations ev \<and> \<not> is_Insert ev \<and> \<not> is_Alert ev"
    by (rule loadLocations_failure)
  have no_insert: "filter is_Insert evs = []"
    using evs by (simp add: filter_empty_conv)
  show thesis
    by (rule that [OF perm pos fs rows],
        use save load in \<open>simp add: perm pos fs getLocation_granted\<close>,
        use evs no_insert in simp_all)
qed

lemma getLocation_success:
  assumes "tables (database s) ''locations'' = Some rows"
  shows "getLocation p (Inr ''granted'') (Inr (lat, lon)) NoFault NoFault s =
     (Inr (),
      s\<lparr>isLoading := False,
        database := committed p rows lat lon (database s),
        locations := Some (scan p (rows @ [new_row p rows (database s) lat lon])),
        trace := trace s @
          [SetIsLoading True,
           ConsoleLog ''Iniciando captura de localizacao...'' [],
           ConsoleLog ''Solicitando permissao de localizacao...'' [],
           ConsoleLog ''Status da permissao:'' [AStr ''granted''],
           ConsoleLog ''Obtendo posicao atual...'' [],
           ConsoleLog ''Localizacao obtida:'' [ACoords lat lon],
           ConsoleLog ''Latitude: ${latitude}, Longitude: ${longitude}'' [ACoords lat lon],
           ConsoleLog ''Salvando localizacao...'' [],
           TxBegin, Sql (InsertInto ''locations'' lat lon), TxCommit,
           ConsoleLog ''Localizacao salva, ID:''
             [AId (Some (next_rowid ''locations'' rows (database s)))],
           ConsoleLog ''Localizacao salva no DB.'' [],
           ConsoleLog ''Recarregando localizacoes da lista...'' [],
           TxBegin, Sql (SelectAll ''locations''), TxCommit,
           ConsoleLog ''Localizacoes carregadas:''
             [ARows (scan p (rows @ [new_row p rows (database s) lat lon]))],
           SetLocations (scan p (rows @ [new_row p rows (database s) lat lon])),
           ConsoleLog ''Localizacoes recarregadas.'' [],
           SetIsLoading False,
           ConsoleLog ''Finalizando captura de localizacao. isLoading:''
             [ABool (isLoading s)]]\<rparr>)"
proof -
  let ?s1 = "s\<lparr>isLoading := True,
            trace := trace s @
              [SetIsLoading True,
               ConsoleLog ''Iniciando captura de localizacao...'' [],
               ConsoleLog ''Solicitando permissao de localizacao...'' [],
               ConsoleLog ''Status da permissao:'' [AStr ''granted''],
               ConsoleLog ''Obtendo posicao atual...'' [],
               ConsoleLog ''Localizacao obtida:'' [ACoords lat lon],
               ConsoleLog ''Latitude: ${latitude}, Longitude: ${longitude}''
                 [ACoords lat lon],
               ConsoleLog ''Salvando localizacao...'' []]\<rparr>"
  have rows1: "tables (database ?s1) ''locations'' = Some rows"
    using assms by simp
  note save = saveLocation_success [OF rows1, of p lat lon]
  let ?s2 = "?s1\<lparr>database := committed p rows lat lon (database ?s1),
        trace := trace ?s1 @ [TxBegin, Sql (InsertInto ''locations'' lat lon), TxCommit,
          ConsoleLog ''Localizacao salva, ID:''
            [AId (Some (next_rowid ''locations'' rows (database ?s1)))]]
          @ [ConsoleLog ''Localizacao salva no DB.'' [],
             ConsoleLog ''Recarregando localizacoes da lista...'' []]\<rparr>"
  have rows2: "tables (database ?s2) ''locations''
                 = Some (rows @ [new_row p rows (database s) lat lon])"
    by (simp add: committed_def)
  note load = loadLocations_success [OF rows2, of p]
  show ?thesis
    using save load by (simp add: getLocation_granted)
qed




lemma fold_max_bound:
  fixes a :: nat
  shows "a \<le> fold max xs a" and "x \<in> set xs \<Longrightarrow> x \<le> fold max xs a"
proof -
  have eq: "fold max xs a = Max (set (a # xs))"
    by (simp only: Max.set_eq_fold)
  show "a \<le> fold max xs a"
    unfolding eq by (rule Max_ge) simp_all
  show "x \<in> set xs \<Longrightarrow> x \<le> fold max xs a"
    unfolding eq by (rule Max_ge) simp_all
qed

lemma new_row_fresh: "new_row p rows d lat lon \<notin> set rows"
proof
  assume "new_row p rows d lat lon \<in> set rows"
  then have "row_id (new_row p rows d lat lon) \<in> set (map row_id rows)"
    by (auto intro: imageI)
  then have "row_id (new_row p rows d lat lon) \<le> fold max (map row_id rows) (sequence d ''locations'')"
    by (rule fold_max_bound(2))
  then show False
    by (simp add: new_row_def next_rowid_def)
qed

lemma empty_store_table:
  "tables (database empty_store) ''locations'' = Some []"
  "sequence (database empty_store) = (\<lambda>t. 0)"
  by (simp_all add: empty_store_def createTable_success fresh_install_def
      create_table_if_not_exists_def)

lemma example_platform_column: "real_column example_platform x = x"
  by (simp add: example_platform_def)

section \<open>The capture workflow\<close>




lemma getLocation_settles: "fst (getLocation p perm pos fs fl s) = Inr ()"
  by (simp add: workflow_defs prog_defs split: sum.splits prod.splits)

lemma getLocation_idle: "isLoading (snd (getLocation p perm pos fs fl s)) = False"
  by (simp add: workflow_defs prog_defs split: sum.splits prod.splits)

lemma getLocation_success_inserts:
  assumes "\<not> fails_before_commit perm pos fs s" and "\<not> fails_at_reload perm pos fs fl s"
  shows "length (filter is_Insert (new_events s (snd (getLocation p perm pos fs fl s)))) = 1"
    and "\<exists>ev \<in> set (new_events s (snd (getLocation p perm pos fs fl s))). is_SetLocations ev"
proof -
  from assms obtain lat lon rows where
    "perm = Inr ''granted''" and "pos = Inr (lat, lon)" and "fs = NoFault" and "fl = NoFault"
    and rows: "tables (database s) ''locations'' = Some rows"
    by (auto simp add: fails_at_reload_def fails_before_commit_def insert_succeeds_def
        split: sum.splits)
  then have run: "getLocation p perm pos fs fl s
      = getLocation p (Inr ''granted'') (Inr (lat, lon)) NoFault NoFault s"
    by simp
  show "length (filter is_Insert (new_events s (snd (getLocation p perm pos fs fl s)))) = 1"
    unfolding run by (simp add: getLocation_success [OF rows] new_events_def)
  show "\<exists>ev \<in> set (new_events s (snd (getLocation p perm pos fs fl s))). is_SetLocations ev"
    unfolding run by (simp add: getLocation_success [OF rows] new_events_def)
qed

text \<open>
  C4, as the claim states it: no failing capture changes the record store. On the empty
  store, a capture whose \<open>SELECT\<close> fails after the insert was committed is a failing
  capture, and the store holds the new record.
\<close>

theorem reload_failure_counterexample:
  "fails_at_reload (Inr ''granted'') (Inr (37.422, -122.084)) NoFault
     (AtStatement (Error ''disk I/O error'')) empty_store
   \<and> tables (database empty_store) ''locations'' = Some []
   \<and> tables (database (snd (getLocation example_platform (Inr ''granted'')
        (Inr (37.422, -122.084)) NoFault (AtStatement (Error ''disk I/O error'')) empty_store)))
        ''locations''
       = Some [\<lparr>row_id = 1, latitude = 37.422, longitude = -122.084\<rparr>]"
proof -
  have f: "fails_at_reload (Inr ''granted'') (Inr (37.422 :: real, -122.084 :: real)) NoFault
     (AtStatement (Error ''disk I/O error'')) empty_store"
    by (simp add: fails_at_reload_def fails_before_commit_def insert_succeeds_def
        empty_store_table)
  obtain lat lon rows evs where
    "Inr (37.422 :: real, -122.084 :: real) = (Inr (lat, lon) :: exn + real \<times> real)"
    and "tables (database empty_store) ''locations'' = Some rows"
    and "getLocation example_platform (Inr ''granted'') (Inr (37.422, -122.084)) NoFault
           (AtStatement (Error ''disk I/O error'')) empty_store =
           (Inr (), empty_store\<lparr>database := committed example_platform rows lat lon
                      (database empty_store),
                      isLoading := False, trace := trace empty_store @ evs\<rparr>)"
    using capture_fails_at_reload [OF f, of example_platform] by metis
  then show ?thesis
    using f
    by (simp add: empty_store_table committed_def new_row_def next_rowid_def
        example_platform_column)
qed

text \<open>
  C4, amended. No invocation of \<open>getLocation\<close> throws, and every one ends with
  \<open>isLoading\<close> false. Every failing one raises an alert. One that fails before the commit
  (permission rejected or not granted, position rejected, insert failed) leaves the
  database as it was; one that fails at the reload leaves it with the committed row.
\<close>

theorem failing_capture:
  "fst (getLocation p perm pos fs fl s) = Inr ()
   \<and> isLoading (snd (getLocation p perm pos fs fl s)) = False
   \<and> (fails_before_commit perm pos fs s \<or> fails_at_reload perm pos fs fl s \<longrightarrow>
        (\<exists>ev \<in> set (new_events s (snd (getLocation p perm pos fs fl s))). is_Alert ev))
   \<and> (fails_before_commit perm pos fs s \<longrightarrow>
        database (snd (getLocation p perm pos fs fl s)) = database s)
   \<and> (fails_at_reload perm pos fs fl s \<longrightarrow>
        (\<exists>lat lon rows. pos = Inr (lat, lon)
           \<and> tables (database s) ''locations'' = Some rows
           \<and> database (snd (getLocation p perm pos fs fl s))
               = committed p rows lat lon (database s)))"
proof (intro conjI impI)
  show "fst (getLocation p perm pos fs fl s) = Inr ()"
    by (rule getLocation_settles)
  show "isLoading (snd (getLocation p perm pos fs fl s)) = False"
    by (rule getLocation_idle)
next
  assume "fails_before_commit perm pos fs s \<or> fails_at_reload perm pos fs fl s"
  then show "\<exists>ev \<in> set (new_events s (snd (getLocation p perm pos fs fl s))). is_Alert ev"
  proof
    assume "fails_before_commit perm pos fs s"
    then obtain evs where
      "getLocation p perm pos fs fl s = (Inr (), s\<lparr>isLoading := False, trace := trace s @ evs\<rparr>)"
      and "\<exists>ev \<in> set evs. is_Alert ev"
      by (rule capture_fails_before_commit)
    then show ?thesis
      by (simp add: new_events_def)
  next
    assume "fails_at_reload perm pos fs fl s"
    then obtain lat lon rows evs where
      "getLocation p perm pos fs fl s =
           (Inr (), s\<lparr>database := committed p rows lat lon (database s), isLoading := False,
                      trace := trace s @ evs\<rparr>)"
      and "\<exists>ev \<in> set evs. is_Alert ev"
      by (rule capture_fails_at_reload)
    then show ?thesis
      by (simp add: new_events_def)
  qed
next
  assume "fails_before_commit perm pos fs s"
  then obtain evs where
    "getLocation p perm pos fs fl s = (Inr (), s\<lparr>isLoading := False, trace := trace s @ evs\<rparr>)"
    by (rule capture_fails_before_commit)
  then show "database (snd (getLocation p perm pos fs fl s)) = database s"
    by simp
next
  assume "fails_at_reload perm pos fs fl s"
  then obtain lat lon rows evs where
    "pos = Inr (lat, lon)" and "tables (database s) ''locations'' = Some rows"
    and "getLocation p perm pos fs fl s =
           (Inr (), s\<lparr>database := committed p rows lat lon (database s), isLoading := False,
                      trace := trace s @ evs\<rparr>)"
    by (rule capture_fails_at_reload)
  then show "\<exists>lat lon rows. pos = Inr (lat, lon)
           \<and> tables (database s) ''locations'' = Some rows
           \<and> database (snd (getLocation p perm pos fs fl s))
               = committed p rows lat lon (database s)"
    by simp
qed

theorem failing_capture_witness:
  "fails_before_commit (Inr ''denied'') (Inr (37.422, -122.084)) NoFault empty_store
   \<and> fst (getLocation example_platform (Inr ''denied'') (Inr (37.422, -122.084))
        NoFault NoFault empty_store) = Inr ()
   \<and> isLoading (snd (getLocation example_platform (Inr ''denied'') (Inr (37.422, -122.084))
        NoFault NoFault empty_store)) = False
   \<and> database (snd (getLocation example_platform (Inr ''denied'') (Inr (37.422, -122.084))
        NoFault NoFault empty_store)) = database empty_store
   \<and> (\<exists>ev \<in> set (new_events empty_store (snd (getLocation example_platform (Inr ''denied'')
        (Inr (37.422, -122.084)) NoFault NoFault empty_store))). is_Alert ev)"
proof -
  have h: "fails_before_commit (Inr ''denied'') (Inr (37.422 :: real, -122.084 :: real))
             NoFault empty_store"
    by (simp add: fails_before_commit_def)
  show ?thesis
    using h failing_capture [of example_platform "Inr ''denied''" "Inr (37.422, -122.084)"
        NoFault NoFault empty_store]
    by simp
qed

text \<open>
  C9. A capture that fails before the commit leaves the published list as it is: it
  sends no \<open>SELECT\<close> and never calls \<open>setLocations\<close>. An invocation that calls
  \<open>setLocations\<close> is a successful one: it failed neither before the commit nor at the
  reload.
\<close>

theorem failing_capture_keeps_snapshot:
  "(fails_before_commit perm pos fs s \<longrightarrow>
      locations (snd (getLocation p perm pos fs fl s)) = locations s
      \<and> (\<forall>ev \<in> set (new_events s (snd (getLocation p perm pos fs fl s))).
            \<not> is_SetLocations ev \<and> \<not> is_Select ev))
   \<and> ((\<exists>ev \<in> set (new_events s (snd (getLocation p perm pos fs fl s))). is_SetLocations ev)
        \<longrightarrow> \<not> fails_before_commit perm pos fs s \<and> \<not> fails_at_reload perm pos fs fl s)"
proof -
  have before: "locations (snd (getLocation p perm pos fs fl s)) = locations s
      \<and> (\<forall>ev \<in> set (new_events s (snd (getLocation p perm pos fs fl s))).
            \<not> is_SetLocations ev \<and> \<not> is_Select ev)"
    if "fails_before_commit perm pos fs s"
  proof -
    from that obtain evs where
      "getLocation p perm pos fs fl s = (Inr (), s\<lparr>isLoading := False, trace := trace s @ evs\<rparr>)"
      and "\<forall>ev \<in> set evs. \<not> is_SetLocations ev \<and> \<not> is_Select ev"
      by (rule capture_fails_before_commit)
    then show ?thesis
      by (simp add: new_events_def)
  qed
  have reload: "\<forall>ev \<in> set (new_events s (snd (getLocation p perm pos fs fl s))).
            \<not> is_SetLocations ev"
    if "fails_at_reload perm pos fs fl s"
  proof -
    from that obtain lat lon rows evs where
      "getLocation p perm pos fs fl s =
           (Inr (), s\<lparr>database := committed p rows lat lon (database s), isLoading := False,
                      trace := trace s @ evs\<rparr>)"
      and "\<forall>ev \<in> set evs. \<not> is_SetLocations ev"
      by (rule capture_fails_at_reload)
    then show ?thesis
      by (simp add: new_events_def)
  qed
  show ?thesis
    using before reload by blast
qed

theorem failing_capture_keeps_snapshot_witness:
  "fails_before_commit (Inr ''granted'') (Inl (Error ''Location services are disabled'')
       :: exn + real \<times> real) NoFault two_records
   \<and> locations (snd (getLocation example_platform (Inr ''granted'')
        (Inl (Error ''Location services are disabled'')) NoFault NoFault two_records))
       = locations two_records
   \<and> filter is_SetLocations (new_events two_records (snd (getLocation example_platform
        (Inr ''granted'') (Inl (Error ''Location services are disabled'')) NoFault NoFault
        two_records))) = []
   \<and> filter is_Select (new_events two_records (snd (getLocation example_platform
        (Inr ''granted'') (Inl (Error ''Location services are disabled'')) NoFault NoFault
        two_records))) = []"
proof -
  have h: "fails_before_commit (Inr ''granted'') (Inl (Error ''Location services are disabled'')
       :: exn + real \<times> real) NoFault two_records"
    by (simp add: fails_before_commit_def)
  show ?thesis
    using h failing_capture_keeps_snapshot [of "Inr ''granted''"
        "Inl (Error ''Location services are disabled'')" NoFault two_records
        example_platform NoFault]
    by (simp add: filter_empty_conv)
qed

section \<open>Overlapping invocations\<close>

lemmas step_defs = run_segment_def getLocation_start_def getLocation_finish_def

lemma getLocation_start_eq:
  "getLocation_start s =
     (Suspended AwaitPermission (isLoading s),
      s\<lparr>isLoading := True,
        trace := trace s @
          [SetIsLoading True,
           ConsoleLog ''Iniciando captura de localizacao...'' [],
           ConsoleLog ''Solicitando permissao de localizacao...'' []]\<rparr>)"
  by (simp add: step_defs prog_defs)

lemma getLocation_steps:
  "getLocation_finish p perm pos fs fl (fst (getLocation_start s)) (snd (getLocation_start s))
     = (case getLocation p perm pos fs fl s of (r, s') \<Rightarrow> (Settled r, s'))"
  by (simp add: step_defs workflow_defs prog_defs split: sum.splits prod.splits option.splits)

lemma getLocation_finish_success:
  assumes "tables (database s) ''locations'' = Some rows"
  shows "getLocation_finish p (Inr ''granted'') (Inr (lat, lon)) NoFault NoFault
           (Suspended AwaitPermission l0) s =
     (Settled (Inr ()),
      s\<lparr>database := committed p rows lat lon (database s),
        isLoading := False,
        locations := Some (scan p (rows @ [new_row p rows (database s) lat lon])),
        trace := trace s @
          [ConsoleLog ''Status da permissao:'' [AStr ''granted''],
           ConsoleLog ''Obtendo posicao atual...'' [],
           ConsoleLog ''Localizacao obtida:'' [ACoords lat lon],
           ConsoleLog ''Latitude: ${latitude}, Longitude: ${longitude}'' [ACoords lat lon],
           ConsoleLog ''Salvando localizacao...'' [],
           TxBegin, Sql (InsertInto ''locations'' lat lon), TxCommit,
           ConsoleLog ''Localizacao salva, ID:''
             [AId (Some (next_rowid ''locations'' rows (database s)))],
           ConsoleLog ''Localizacao salva no DB.'' [],
           ConsoleLog ''Recarregando localizacoes da lista...'' [],
           TxBegin, Sql (SelectAll ''locations''), TxCommit,
           ConsoleLog ''Localizacoes carregadas:''
             [ARows (scan p (rows @ [new_row p rows (database s) lat lon]))],
           SetLocations (scan p (rows @ [new_row p rows (database s) lat lon])),
           ConsoleLog ''Localizacoes recarregadas.'' [],
           SetIsLoading False,
           ConsoleLog ''Finalizando captura de localizacao. isLoading:'' [ABool l0]]\<rparr>)"
  using assms
  by (simp add: step_defs workflow_defs prog_defs saveLocation_NoFault loadLocations_NoFault
      committed_def)

lemma overlapping_captures_tasks:
  assumes "tables (database s) ''locations'' = Some rows"
  shows "fst (overlapping_captures p (lat1, lon1) (lat2, lon2) s)
           = (Suspended AwaitPermission True, Settled (Inr ()), Settled (Inr ()))"
  using assms
  by (simp add: overlapping_captures_def getLocation_start_eq getLocation_finish_success
      committed_def)

lemma overlapping_captures_database:
  assumes "tables (database s) ''locations'' = Some rows"
  shows "database (snd (overlapping_captures p (lat1, lon1) (lat2, lon2) s))
           = committed p (rows @ [new_row p rows (database s) lat2 lon2]) lat1 lon1
               (committed p rows lat2 lon2 (database s))"
  using assms
  by (simp add: overlapping_captures_def getLocation_start_eq getLocation_finish_success
      committed_def)

lemma overlapping_captures_inserts:
  assumes "tables (database s) ''locations'' = Some rows"
  shows "filter is_Insert (new_events s (snd (overlapping_captures p (lat1, lon1) (lat2, lon2) s)))
           = [Sql (InsertInto ''locations'' lat2 lon2), Sql (InsertInto ''locations'' lat1 lon1)]"
  using assms
  by (simp add: overlapping_captures_def getLocation_start_eq getLocation_finish_success
      committed_def new_events_def)

lemma getLocation_one_insert:
  "length (filter is_Insert (new_events s (snd (getLocation p perm pos fs fl s)))) \<le> 1"
proof -
  consider "fails_before_commit perm pos fs s"
    | "fails_at_reload perm pos fs fl s"
    | "\<not> fails_before_commit perm pos fs s" and "\<not> fails_at_reload perm pos fs fl s"
    by blast
  then show ?thesis
  proof cases
    case 1
    then obtain evs where
      "getLocation p perm pos fs fl s = (Inr (), s\<lparr>isLoading := False, trace := trace s @ evs\<rparr>)"
      and "length (filter is_Insert evs) \<le> 1"
      by (rule capture_fails_before_commit)
    then show ?thesis
      by (simp add: new_events_def)
  next
    case 2
    then obtain lat lon rows evs where
      "getLocation p perm pos fs fl s =
           (Inr (), s\<lparr>database := committed p rows lat lon (database s), isLoading := False,
                      trace := trace s @ evs\<rparr>)"
      and "length (filter is_Insert evs) = 1"
      by (rule capture_fails_at_reload)
    then show ?thesis
      by (simp add: new_events_def)
  next
    case 3
    then show ?thesis
      by (simp add: getLocation_success_inserts(1))
  qed
qed

text \<open>
  C5, as the claim states it: an invocation issued while another has not completed is
  rejected or queued. On the empty store, the second invocation starts while \<open>isLoading\<close>
  is true and the first is suspended; it is suspended at its own permission request, and
  when it is resumed first, its record gets the id 1 and the record of the first
  invocation the id 2.
\<close>

theorem reentrant_capture_counterexample:
  "isLoading (snd (getLocation_start empty_store)) = True
   \<and> fst (overlapping_captures example_platform (37.422, -122.084) (40.000, -73.000) empty_store)
       = (Suspended AwaitPermission True, Settled (Inr ()), Settled (Inr ()))
   \<and> tables (database (snd (overlapping_captures example_platform
        (37.422, -122.084) (40.000, -73.000) empty_store))) ''locations''
       = Some [\<lparr>row_id = 1, latitude = 40.000, longitude = -73.000\<rparr>,
               \<lparr>row_id = 2, latitude = 37.422, longitude = -122.084\<rparr>]"
  by (simp add: getLocation_start_eq overlapping_captures_tasks [OF empty_store_table(1)]
      overlapping_captures_database [OF empty_store_table(1)]
      committed_def new_row_def next_rowid_def empty_store_table example_platform_column)

text \<open>
  C5, amended. \<open>getLocation\<close> has no guard: it sets \<open>isLoading\<close> and never reads it, so
  an invocation started in any state, idle or not, is suspended at its permission request
  like any other. An invocation sends at most one \<open>INSERT\<close>; two overlapping invocations
  that both succeed send one each, the one that is resumed first before the other, and the
  table gets two rows.
\<close>

theorem reentrant_capture:
  "fst (getLocation_start s) = Suspended AwaitPermission (isLoading s)
   \<and> isLoading (snd (getLocation_start s)) = True
   \<and> fst (getLocation_start (snd (getLocation_start s))) = Suspended AwaitPermission True
   \<and> getLocation_finish p perm pos fs fl (fst (getLocation_start s)) (snd (getLocation_start s))
       = (Settled (fst (getLocation p perm pos fs fl s)), snd (getLocation p perm pos fs fl s))
   \<and> length (filter is_Insert (new_events s (snd (getLocation p perm pos fs fl s)))) \<le> 1
   \<and> (tables (database s) ''locations'' = Some rows \<longrightarrow>
        fst (overlapping_captures p (lat1, lon1) (lat2, lon2) s)
          = (Suspended AwaitPermission True, Settled (Inr ()), Settled (Inr ()))
        \<and> filter is_Insert
            (new_events s (snd (overlapping_captures p (lat1, lon1) (lat2, lon2) s)))
          = [Sql (InsertInto ''locations'' lat2 lon2), Sql (InsertInto ''locations'' lat1 lon1)]
        \<and> tables (database (snd (overlapping_captures p (lat1, lon1) (lat2, lon2) s)))
            ''locations''
          = Some (rows @ [new_row p rows (database s) lat2 lon2,
                          new_row p (rows @ [new_row p rows (database s) lat2 lon2])
                            (committed p rows lat2 lon2 (database s)) lat1 lon1]))"
proof (intro conjI impI)
  show "fst (getLocation_start s) = Suspended AwaitPermission (isLoading s)"
    and "isLoading (snd (getLocation_start s)) = True"
    and "fst (getLocation_start (snd (getLocation_start s))) = Suspended AwaitPermission True"
    by (simp_all add: getLocation_start_eq)
  show "getLocation_finish p perm pos fs fl (fst (getLocation_start s))
          (snd (getLocation_start s))
       = (Settled (fst (getLocation p perm pos fs fl s)), snd (getLocation p perm pos fs fl s))"
    by (simp add: getLocation_steps split: prod.splits)
  show "length (filter is_Insert (new_events s (snd (getLocation p perm pos fs fl s)))) \<le> 1"
    by (rule getLocation_one_insert)
next
  assume rows: "tables (database s) ''locations'' = Some rows"
  show "fst (overlapping_captures p (lat1, lon1) (lat2, lon2) s)
          = (Suspended AwaitPermission True, Settled (Inr ()), Settled (Inr ()))"
    by (rule overlapping_captures_tasks [OF rows])
  show "filter is_Insert
            (new_events s (snd (overlapping_captures p (lat1, lon1) (lat2, lon2) s)))
          = [Sql (InsertInto ''locations'' lat2 lon2), Sql (InsertInto ''locations'' lat1 lon1)]"
    by (rule overlapping_captures_inserts [OF rows])
  show "tables (database (snd (overlapping_captures p (lat1, lon1) (lat2, lon2) s)))
            ''locations''
          = Some (rows @ [new_row p rows (database s) lat2 lon2,
                          new_row p (rows @ [new_row p rows (database s) lat2 lon2])
                            (committed p rows lat2 lon2 (database s)) lat1 lon1])"
    by (simp add: overlapping_captures_database [OF rows] committed_def)
qed

theorem reentrant_capture_witness:
  "tables (database empty_store) ''locations'' = Some []
   \<and> filter is_Insert (new_events empty_store (snd (overlapping_captures example_platform
        (37.422, -122.084) (40.000, -73.000) empty_store)))
       = [Sql (InsertInto ''locations'' 40.000 (-73.000)),
          Sql (InsertInto ''locations'' 37.422 (-122.084))]"
proof -
  have h: "tables (database empty_store) ''locations'' = Some []"
    by (rule empty_store_table)
  show ?thesis
    using h reentrant_capture [of empty_store example_platform "Inr ''granted''"
        "Inr (37.422, -122.084)" NoFault NoFault "[]" "37.422" "-122.084" "40.000" "-73.000"]
    by (simp add: example_platform_column)
qed

section \<open>The listing after a successful capture\<close>

lemma overlapping_captures_locations:
  assumes "tables (database s) ''locations'' = Some rows"
  shows "locations (snd (overlapping_captures p (lat1, lon1) (lat2, lon2) s))
           = Some (scan p (rows @ [new_row p rows (database s) lat2 lon2,
                                   new_row p (rows @ [new_row p rows (database s) lat2 lon2])
                                     (committed p rows lat2 lon2 (database s)) lat1 lon1]))"
  using assms
  by (simp add: overlapping_captures_def getLocation_start_eq getLocation_finish_success
      committed_def)

lemma overlapping_captures_alerts:
  assumes "tables (database s) ''locations'' = Some rows"
  shows "filter is_Alert (new_events s (snd (overlapping_captures p (lat1, lon1) (lat2, lon2) s)))
           = []"
  using assms
  by (simp add: overlapping_captures_def getLocation_start_eq getLocation_finish_success
      committed_def new_events_def)

lemma empty_coordinate_store_table:
  "tables (database empty_coordinate_store) ''locations'' = Some []"
  "sequence (database empty_coordinate_store) = (\<lambda>t. 0)"
  by (simp_all add: empty_coordinate_store_def createTable_success fresh_install_def
      create_table_if_not_exists_def)

text \<open>
  C1, as the claim states it: after every successful capture the listing is one longer
  than before it, and the new record holds the coordinates of the position request. On the
  empty store, whose listing is empty, the first of two overlapping invocations is a
  successful capture (it settles normally, no alert is raised) and its reload publishes
  two records. And a successful capture of the position (NaN, 10), on a platform whose
  columns store NaN as \<open>NULL\<close>, adds a record whose latitude is \<open>null\<close>.
\<close>

theorem successful_capture_counterexample:
  "locations (snd (loadLocations example_platform NoFault empty_store)) = Some []
   \<and> fst (overlapping_captures example_platform (37.422, -122.084) (40.000, -73.000)
        empty_store)
       = (Suspended AwaitPermission True, Settled (Inr ()), Settled (Inr ()))
   \<and> filter is_Alert (new_events empty_store (snd (overlapping_captures example_platform
        (37.422, -122.084) (40.000, -73.000) empty_store))) = []
   \<and> locations (snd (overlapping_captures example_platform
        (37.422, -122.084) (40.000, -73.000) empty_store))
       = Some [\<lparr>row_id = 1, latitude = 40.000, longitude = -73.000\<rparr>,
               \<lparr>row_id = 2, latitude = 37.422, longitude = -122.084\<rparr>]
   \<and> getLocation sqlite_platform (Inr ''granted'') (Inr (NaN, Finite 10)) NoFault NoFault
        empty_coordinate_store
       = (Inr (), snd (getLocation sqlite_platform (Inr ''granted'') (Inr (NaN, Finite 10))
            NoFault NoFault empty_coordinate_store))
   \<and> locations (snd (getLocation sqlite_platform (Inr ''granted'') (Inr (NaN, Finite 10))
        NoFault NoFault empty_coordinate_store))
       = Some [\<lparr>row_id = 1, latitude = Null, longitude = Finite 10\<rparr>]"
proof -
  have overlap:
    "locations (snd (loadLocations example_platform NoFault empty_store)) = Some []"
    "fst (overlapping_captures example_platform (37.422, -122.084) (40.000, -73.000)
        empty_store)
       = (Suspended AwaitPermission True, Settled (Inr ()), Settled (Inr ()))"
    "filter is_Alert (new_events empty_store (snd (overlapping_captures example_platform
        (37.422, -122.084) (40.000, -73.000) empty_store))) = []"
    "locations (snd (overlapping_captures example_platform
        (37.422, -122.084) (40.000, -73.000) empty_store))
       = Some [\<lparr>row_id = 1, latitude = 40.000, longitude = -73.000\<rparr>,
               \<lparr>row_id = 2, latitude = 37.422, longitude = -122.084\<rparr>]"
    by (simp_all add: loadLocations_success [OF empty_store_table(1)]
        overlapping_captures_tasks [OF empty_store_table(1)]
        overlapping_captures_alerts [OF empty_store_table(1)]
        overlapping_captures_locations [OF empty_store_table(1)]
        committed_def new_row_def next_rowid_def empty_store_table example_platform_def
        rowid_scan_def)
  have nan:
    "getLocation sqlite_platform (Inr ''granted'') (Inr (NaN, Finite 10)) NoFault NoFault
        empty_coordinate_store
       = (Inr (), snd (getLocation sqlite_platform (Inr ''granted'') (Inr (NaN, Finite 10))
            NoFault NoFault empty_coordinate_store))"
    "locations (snd (getLocation sqlite_platform (Inr ''granted'') (Inr (NaN, Finite 10))
        NoFault NoFault empty_coordinate_store))
       = Some [\<lparr>row_id = 1, latitude = Null, longitude = Finite 10\<rparr>]"
    by (simp_all add: getLocation_success [OF empty_coordinate_store_table(1)]
        new_row_def next_rowid_def empty_coordinate_store_table sqlite_platform_def
        rowid_scan_def)
  show ?thesis
    using overlap nan by simp
qed

text \<open>
  C1, amended. A capture succeeds when the permission is granted, the position is
  retrieved and the insert and the reload succeed (no engine fault, the table exists).
  When it runs from its start to its settlement with no other invocation in between, and
  the columns store its coordinates as they are, then, for every engine whose scan returns
  each stored row once, the list that the reload publishes, and that a later
  \<open>loadLocations\<close> publishes again, has one element more than the list \<open>loadLocations\<close>
  gave before the capture: the old rows and one new row, which holds the coordinates the
  position request returned.
\<close>

theorem successful_capture:
  assumes "\<forall>xs. mset (scan p xs) = mset xs"
    and "tables (database s) ''locations'' = Some rows"
    and "real_column p lat = lat"
    and "real_column p lon = lon"
  shows "getLocation_finish p (Inr ''granted'') (Inr (lat, lon)) NoFault NoFault
           (fst (getLocation_start s)) (snd (getLocation_start s))
        = (Settled (Inr ()),
           snd (getLocation p (Inr ''granted'') (Inr (lat, lon)) NoFault NoFault s))
    \<and> fst (getLocation p (Inr ''granted'') (Inr (lat, lon)) NoFault NoFault s) = Inr ()
    \<and> locations (snd (loadLocations p NoFault s)) = Some (scan p rows)
    \<and> locations (snd (getLocation p (Inr ''granted'') (Inr (lat, lon)) NoFault NoFault s))
        = Some (scan p (rows @ [new_row p rows (database s) lat lon]))
    \<and> locations (snd (loadLocations p NoFault
          (snd (getLocation p (Inr ''granted'') (Inr (lat, lon)) NoFault NoFault s))))
        = Some (scan p (rows @ [new_row p rows (database s) lat lon]))
    \<and> length (scan p (rows @ [new_row p rows (database s) lat lon])) = length (scan p rows) + 1
    \<and> mset (scan p (rows @ [new_row p rows (database s) lat lon]))
        = add_mset (new_row p rows (database s) lat lon) (mset (scan p rows))
    \<and> new_row p rows (database s) lat lon \<notin> set (scan p rows)
    \<and> latitude (new_row p rows (database s) lat lon) = lat
    \<and> longitude (new_row p rows (database s) lat lon) = lon"
proof -
  let ?new = "new_row p rows (database s) lat lon"
  note run = getLocation_success [OF assms(2), of p lat lon]
  have after: "tables (database (snd (getLocation p (Inr ''granted'') (Inr (lat, lon))
                  NoFault NoFault s))) ''locations'' = Some (rows @ [?new])"
    by (simp add: run committed_def)
  have m: "mset (scan p (rows @ [?new])) = add_mset ?new (mset (scan p rows))"
    using assms(1) by simp
  have "length (scan p (rows @ [?new])) = size (mset (scan p (rows @ [?new])))"
    by simp
  also have "\<dots> = length (scan p rows) + 1"
    unfolding m by simp
  finally have len: "length (scan p (rows @ [?new])) = length (scan p rows) + 1" .
  have "set (scan p rows) = set rows"
    using assms(1) by (metis set_mset_mset)
  then have fresh: "?new \<notin> set (scan p rows)"
    by (simp add: new_row_fresh)
  have again: "locations (snd (loadLocations p NoFault
          (snd (getLocation p (Inr ''granted'') (Inr (lat, lon)) NoFault NoFault s))))
        = Some (scan p (rows @ [?new]))"
    by (simp add: loadLocations_success [OF after])
  have run': "fst (getLocation p (Inr ''granted'') (Inr (lat, lon)) NoFault NoFault s) = Inr ()"
    "locations (snd (getLocation p (Inr ''granted'') (Inr (lat, lon)) NoFault NoFault s))
        = Some (scan p (rows @ [?new]))"
    by (simp_all add: run)
  have steps: "getLocation_finish p (Inr ''granted'') (Inr (lat, lon)) NoFault NoFault
           (fst (getLocation_start s)) (snd (getLocation_start s))
        = (Settled (Inr ()),
           snd (getLocation p (Inr ''granted'') (Inr (lat, lon)) NoFault NoFault s))"
    using run'(1) by (simp add: getLocation_steps case_prod_beta)
  have coords: "latitude ?new = lat" "longitude ?new = lon"
    using assms(3,4) by (simp_all add: new_row_def)
  show ?thesis
    using m len fresh again run' steps coords
    by (simp add: loadLocations_success [OF assms(2)])
qed

theorem successful_capture_witness:
  "(\<forall>xs. mset (scan (example_platform :: real platform) xs) = mset xs)
   \<and> tables (database empty_store) ''locations'' = Some []
   \<and> real_column example_platform (37.422 :: real) = 37.422
   \<and> real_column example_platform (-122.084 :: real) = -122.084
   \<and> locations (snd (loadLocations example_platform NoFault empty_store)) = Some []
   \<and> locations (snd (getLocation example_platform (Inr ''granted'')
        (Inr (37.422, -122.084)) NoFault NoFault empty_store))
       = Some [\<lparr>row_id = 1, latitude = 37.422, longitude = -122.084\<rparr>]"
proof -
  have h1: "\<forall>xs. mset (scan (example_platform :: real platform) xs) = mset xs"
    by (simp add: example_platform_def rowid_scan_def)
  have h2: "tables (database empty_store) ''locations'' = Some []"
    by (rule empty_store_table)
  have h3: "real_column example_platform (37.422 :: real) = 37.422"
    by (rule example_platform_column)
  have h4: "real_column example_platform (-122.084 :: real) = -122.084"
    by (rule example_platform_column)
  show ?thesis
    using h1 h2 h3 h4 successful_capture [OF h1 h2 h3 h4]
    by (simp add: example_platform_def rowid_scan_def new_row_def next_rowid_def
        empty_store_table)
qed

section \<open>Schema and order of the listing\<close>

lemma two_records_table:
  "tables (database two_records) ''locations''
     = Some [\<lparr>row_id = 1, latitude = 37.422, longitude = -122.084\<rparr>,
             \<lparr>row_id = 2, latitude = 40.000, longitude = -73.000\<rparr>]"
  by (simp add: two_records_def saveLocation_NoFault empty_store_table committed_def
      new_row_def next_rowid_def example_platform_column)

lemma create_table_if_not_exists_idem:
  "create_table_if_not_exists t (create_table_if_not_exists t d)
     = create_table_if_not_exists t d"
  by (simp add: create_table_if_not_exists_def split: option.splits)

lemma createTable_calls_results: "fst (createTable_calls n s) = replicate n (Inr ())"
  by (induction n arbitrary: s) (simp_all add: createTable_success case_prod_beta)

lemma createTable_calls_database:
  "database (snd (createTable_calls (Suc n) s))
     = create_table_if_not_exists ''locations'' (database s)"
proof (induction n arbitrary: s)
  case 0
  show ?case
    by (simp add: createTable_success)
next
  case (Suc n)
  have "database (snd (createTable_calls (Suc (Suc n)) s))
          = database (snd (createTable_calls (Suc n) (snd (createTable NoFault s))))"
    by (simp add: createTable_success case_prod_beta)
  also have "\<dots> = create_table_if_not_exists ''locations''
                     (database (snd (createTable NoFault s)))"
    by (rule Suc.IH)
  also have "\<dots> = create_table_if_not_exists ''locations'' (database s)"
    by (simp add: createTable_success create_table_if_not_exists_idem)
  finally show ?case .
qed

text \<open>
  C6. \<open>createTable\<close> is idempotent. Called any number of times above one, with no fault
  of the engine, every call returns normally and the database is what one call leaves:
  the tables as they were, with their rows, and one table \<open>locations\<close>, empty if it did
  not exist before.
\<close>

theorem createTable_idempotent:
  assumes "1 < n"
  shows "fst (createTable_calls n s) = replicate n (Inr ())
    \<and> database (snd (createTable_calls n s)) = database (snd (createTable NoFault s))
    \<and> tables (database (snd (createTable_calls n s)))
        = (tables (database s))(''locations'' \<mapsto>
             (case tables (database s) ''locations'' of None \<Rightarrow> [] | Some rows \<Rightarrow> rows))
    \<and> sequence (database (snd (createTable_calls n s))) = sequence (database s)"
proof -
  from assms obtain m where n: "n = Suc m"
    by (cases n) simp_all
  have db: "database (snd (createTable_calls n s))
              = create_table_if_not_exists ''locations'' (database s)"
    unfolding n by (rule createTable_calls_database)
  show ?thesis
    by (auto simp add: createTable_calls_results db createTable_success
        create_table_if_not_exists_def split: option.splits)
qed

theorem createTable_idempotent_witness:
  "(1 :: nat) < 3
   \<and> fst (createTable_calls 3 two_records) = replicate 3 (Inr ())
   \<and> database (snd (createTable_calls 3 two_records)) = database two_records
   \<and> dom (tables (database (snd (createTable_calls 3 (fresh_install :: real world)))))
       = {''locations''}"
proof -
  have h: "(1 :: nat) < 3"
    by simp
  have one: "database (snd (createTable NoFault two_records)) = database two_records"
    using two_records_table by (simp add: createTable_success create_table_if_not_exists_def)
  show ?thesis
    using h one createTable_idempotent [OF h, of two_records]
      createTable_idempotent [OF h, of "fresh_install :: real world"]
    by (simp add: fresh_install_def createTable_success create_table_if_not_exists_def)
qed

lemma new_row_ascending:
  assumes "sorted_wrt (<) (map row_id rows)"
  shows "sorted_wrt (<) (map row_id (rows @ [new_row p rows d lat lon]))"
proof -
  have "x < row_id (new_row p rows d lat lon)" if "x \<in> set (map row_id rows)" for x
    using fold_max_bound(2) [OF that, of "sequence d ''locations''"]
    by (simp add: new_row_def next_rowid_def)
  then show ?thesis
    using assms by (simp add: sorted_wrt_append)
qed

text \<open>
  C2, as the claim states it: the listing is ordered by id whatever the store. The query
  has no \<open>ORDER BY\<close>; with an engine that scans the table backwards, the listing of the two
  records of the example starts with the id 2.
\<close>

theorem listing_order_counterexample:
  "locations (snd (loadLocations backwards_platform NoFault two_records))
     = Some [\<lparr>row_id = 2, latitude = 40.000, longitude = -73.000\<rparr>,
             \<lparr>row_id = 1, latitude = 37.422, longitude = -122.084\<rparr>]"
  by (simp add: loadLocations_NoFault two_records_table backwards_platform_def)

text \<open>
  C2, amended. \<open>loadLocations\<close> publishes the rows of the table as the scan of the engine
  returns them. When the engine scans by rowid, as SQLite does, the list holds every
  stored row once, ordered by id ascending; that is the order of insertion when the ids
  ascend in that order, which every insert preserves.
\<close>

theorem listing_order:
  assumes "tables (database s) ''locations'' = Some rows"
  shows "locations (snd (loadLocations p NoFault s)) = Some (scan p rows)
    \<and> (scan p = rowid_scan \<longrightarrow>
         sorted (map row_id (scan p rows))
         \<and> mset (scan p rows) = mset rows
         \<and> (sorted_wrt (<) (map row_id rows) \<longrightarrow> scan p rows = rows))
    \<and> (sorted_wrt (<) (map row_id rows) \<longrightarrow>
         sorted_wrt (<) (map row_id (rows @ [new_row p rows (database s) lat lon])))"
proof (intro conjI impI)
  show "locations (snd (loadLocations p NoFault s)) = Some (scan p rows)"
    by (simp add: loadLocations_success [OF assms])
next
  assume "scan p = rowid_scan"
  then show "sorted (map row_id (scan p rows))" and "mset (scan p rows) = mset rows"
    by (simp_all add: rowid_scan_def)
next
  assume "scan p = rowid_scan" and asc: "sorted_wrt (<) (map row_id rows)"
  from asc have "sorted (map row_id rows)"
    by (rule strict_sorted_imp_sorted)
  then have "sort_key row_id rows = rows"
    by (rule sort_key_id_if_sorted)
  then show "scan p rows = rows"
    using \<open>scan p = rowid_scan\<close> by (simp add: rowid_scan_def)
next
  assume "sorted_wrt (<) (map row_id rows)"
  then show "sorted_wrt (<) (map row_id (rows @ [new_row p rows (database s) lat lon]))"
    by (rule new_row_ascending)
qed

theorem listing_order_witness:
  "tables (database two_records) ''locations''
     = Some [\<lparr>row_id = 1, latitude = 37.422, longitude = -122.084\<rparr>,
             \<lparr>row_id = 2, latitude = 40.000, longitude = -73.000\<rparr>]
   \<and> scan (example_platform :: real platform) = rowid_scan
   \<and> locations (snd (loadLocations example_platform NoFault two_records))
       = Some [\<lparr>row_id = 1, latitude = 37.422, longitude = -122.084\<rparr>,
               \<lparr>row_id = 2, latitude = 40.000, longitude = -73.000\<rparr>]"
proof -
  have h1: "scan (example_platform :: real platform) = rowid_scan"
    by (simp add: example_platform_def)
  have h2: "sorted_wrt (<) (map row_id
             [\<lparr>row_id = 1, latitude = 37.422 :: real, longitude = -122.084 :: real\<rparr>,
              \<lparr>row_id = 2, latitude = 40.000, longitude = -73.000\<rparr>])"
    by simp
  show ?thesis
    using h1 h2 listing_order [OF two_records_table, of example_platform]
    by (simp add: two_records_table)
qed

end
